theory Spec2Isabelle
  imports Complex_Main
begin

section \<open>Python values\<close>

text \<open>
  The collector works on the decoded JSON answer of the station endpoint, a dynamically
  typed Python value. A \<open>str\<close> is a sequence of Unicode code points; dictionary keys are
  kept as plain \<open>string\<close>s, since the program only ever looks up ASCII literals.
  A \<open>float\<close> is a finite value, given by the rational number it denotes, or one of the
  infinities, or not-a-number: \<open>json.loads\<close> reads \<open>1e999\<close> as infinity and accepts \<open>NaN\<close>.
  Zero carries no sign, as \<open>==\<close> does not tell \<open>-0.0\<close> from \<open>0.0\<close>.
\<close>

type_synonym codepoint = nat
type_synonym ustring = "codepoint list"

definition ustr :: "string \<Rightarrow> ustring" where
  "ustr s = map of_char s"

datatype py_exc =
    RequestException
  | ValueError
  | AttributeError
  | IndexError
  | KeyError
  | TypeError
  | OverflowError
  | OSError

datatype pyfloat = Finite rat | PosInf | NegInf | NaN

datatype pyval =
    PNone
  | PBool bool
  | PInt int
  | PFloat pyfloat
  | PStr ustring
  | PList "pyval list"
  | PDict "(string \<times> pyval) list"

text \<open>Sequencing of computations that may raise: the first exception wins.\<close>

fun try_bind :: "py_exc + 'a \<Rightarrow> ('a \<Rightarrow> py_exc + 'b) \<Rightarrow> py_exc + 'b" where
  "try_bind (Inl e) f = Inl e"
| "try_bind (Inr v) f = f v"

text \<open>Truth value of an object (\<open>if x\<close>, \<open>not x\<close>).\<close>

fun py_truthy :: "pyval \<Rightarrow> bool" where
  "py_truthy PNone = False"
| "py_truthy (PBool b) = b"
| "py_truthy (PInt i) = (i \<noteq> 0)"
| "py_truthy (PFloat f) = (f \<noteq> Finite 0)"
| "py_truthy (PStr s) = (s \<noteq> [])"
| "py_truthy (PList xs) = (xs \<noteq> [])"
| "py_truthy (PDict kvs) = (kvs \<noteq> [])"

text \<open>\<open>x == 0\<close>: numbers compare by value, \<open>False == 0\<close> holds, everything else differs from 0.\<close>

fun py_eq0 :: "pyval \<Rightarrow> bool" where
  "py_eq0 (PInt i) = (i = 0)"
| "py_eq0 (PFloat f) = (f = Finite 0)"
| "py_eq0 (PBool b) = (\<not> b)"
| "py_eq0 _ = False"

text \<open>
  Float arithmetic belongs to the Python runtime: the sum of two finite floats (rounded,
  infinite on overflow) and the conversion of an \<open>int\<close> to a \<open>float\<close> (rounded; none when the
  \<open>int\<close> is too large, which raises \<open>OverflowError\<close>) are parameters of the model.
\<close>

record floats =
  add_finite :: "rat \<Rightarrow> rat \<Rightarrow> pyfloat"
  int_to_float :: "int \<Rightarrow> rat option"

text \<open>The sum of two floats: not-a-number absorbs, opposite infinities give not-a-number.\<close>

fun float_plus :: "floats \<Rightarrow> pyfloat \<Rightarrow> pyfloat \<Rightarrow> pyfloat" where
  "float_plus fl NaN g = NaN"
| "float_plus fl f NaN = NaN"
| "float_plus fl PosInf NegInf = NaN"
| "float_plus fl NegInf PosInf = NaN"
| "float_plus fl PosInf g = PosInf"
| "float_plus fl f PosInf = PosInf"
| "float_plus fl NegInf g = NegInf"
| "float_plus fl f NegInf = NegInf"
| "float_plus fl (Finite a) (Finite b) = add_finite fl a b"

text \<open>\<open>x + y\<close>: numbers (a \<open>bool\<close> counts as 0 or 1; an \<open>int\<close> next to a \<open>float\<close> is converted
  first), strings and lists; \<open>TypeError\<close> otherwise.\<close>

fun num_of :: "pyval \<Rightarrow> (int + pyfloat) option" where
  "num_of (PBool b) = Some (Inl (if b then 1 else 0))"
| "num_of (PInt i) = Some (Inl i)"
| "num_of (PFloat f) = Some (Inr f)"
| "num_of _ = None"

fun num_add :: "floats \<Rightarrow> int + pyfloat \<Rightarrow> int + pyfloat \<Rightarrow> py_exc + pyval" where
  "num_add fl (Inl i) (Inl j) = Inr (PInt (i + j))"
| "num_add fl (Inl i) (Inr g) =
     (case int_to_float fl i of
        None \<Rightarrow> Inl OverflowError
      | Some a \<Rightarrow> Inr (PFloat (float_plus fl (Finite a) g)))"
| "num_add fl (Inr f) (Inl j) =
     (case int_to_float fl j of
        None \<Rightarrow> Inl OverflowError
      | Some b \<Rightarrow> Inr (PFloat (float_plus fl f (Finite b))))"
| "num_add fl (Inr f) (Inr g) = Inr (PFloat (float_plus fl f g))"

definition py_add :: "floats \<Rightarrow> pyval \<Rightarrow> pyval \<Rightarrow> py_exc + pyval" where
  "py_add fl a b =
     (case (num_of a, num_of b) of
        (Some x, Some y) \<Rightarrow> num_add fl x y
      | _ \<Rightarrow>
        (case (a, b) of
           (PStr s, PStr t) \<Rightarrow> Inr (PStr (s @ t))
         | (PList xs, PList ys) \<Rightarrow> Inr (PList (xs @ ys))
         | _ \<Rightarrow> Inl TypeError))"

text \<open>\<open>a == b\<close> and \<open>a >= b\<close> on two numbers, none for other objects. Python compares an
  \<open>int\<close> and a \<open>float\<close> by their exact values; not-a-number equals nothing, itself included,
  and is in no order with anything.\<close>

fun exact_value :: "int + pyfloat \<Rightarrow> pyfloat" where
  "exact_value (Inl i) = Finite (of_int i)"
| "exact_value (Inr f) = f"

fun float_le :: "pyfloat \<Rightarrow> pyfloat \<Rightarrow> bool" where
  "float_le NaN g = False"
| "float_le f NaN = False"
| "float_le NegInf g = True"
| "float_le f PosInf = True"
| "float_le PosInf g = False"
| "float_le f NegInf = False"
| "float_le (Finite a) (Finite b) = (a \<le> b)"

definition float_eq :: "pyfloat \<Rightarrow> pyfloat \<Rightarrow> bool" where
  "float_eq f g = (f \<noteq> NaN \<and> f = g)"

definition py_eq :: "pyval \<Rightarrow> pyval \<Rightarrow> bool option" where
  "py_eq a b =
     (case (num_of a, num_of b) of
        (Some x, Some y) \<Rightarrow> Some (float_eq (exact_value x) (exact_value y))
      | _ \<Rightarrow> None)"

definition py_ge :: "pyval \<Rightarrow> pyval \<Rightarrow> bool option" where
  "py_ge a b =
     (case (num_of a, num_of b) of
        (Some x, Some y) \<Rightarrow> Some (float_le (exact_value y) (exact_value x))
      | _ \<Rightarrow> None)"

fun is_nan :: "pyval \<Rightarrow> bool" where
  "is_nan (PFloat NaN) = True"
| "is_nan v = False"

text \<open>\<open>d.get(key, default)\<close>; an object that is not a \<open>dict\<close> has no \<open>get\<close>.\<close>

definition dict_get :: "(string \<times> pyval) list \<Rightarrow> string \<Rightarrow> pyval \<Rightarrow> pyval" where
  "dict_get kvs k d = (case map_of kvs k of None \<Rightarrow> d | Some v \<Rightarrow> v)"

fun py_get :: "pyval \<Rightarrow> string \<Rightarrow> pyval \<Rightarrow> py_exc + pyval" where
  "py_get (PDict kvs) k d = Inr (dict_get kvs k d)"
| "py_get _ k d = Inl AttributeError"

text \<open>\<open>x[i]\<close> for a literal index \<open>i \<ge> 0\<close>. The keys of a decoded JSON object are strings,
  so an integer key is never present.\<close>

fun py_index :: "pyval \<Rightarrow> nat \<Rightarrow> py_exc + pyval" where
  "py_index (PList xs) i = (if i < length xs then Inr (xs ! i) else Inl IndexError)"
| "py_index (PStr s) i = (if i < length s then Inr (PStr [s ! i]) else Inl IndexError)"
| "py_index (PDict kvs) i = Inl KeyError"
| "py_index _ i = Inl TypeError"

fun is_dict :: "pyval \<Rightarrow> bool" where
  "is_dict (PDict kvs) = True"
| "is_dict _ = False"

text \<open>\<open>key in station\<close>, for a station that is a \<open>dict\<close>.\<close>

fun has_key :: "pyval \<Rightarrow> string \<Rightarrow> bool" where
  "has_key (PDict kvs) k = (map_of kvs k \<noteq> None)"
| "has_key _ k = False"

section \<open>Text normalisation\<close>

text \<open>
  \<open>unicodedata\<close> belongs to the Python library, not to the repository: its two functions
  are parameters of the model.
\<close>

record unicodedata =
  normalize_NFKD :: "ustring \<Rightarrow> ustring"
  combining :: "codepoint \<Rightarrow> nat"

text \<open>\<open>s.replace(old, new)\<close>: the non-overlapping occurrences of \<open>old\<close>, from the left.\<close>

function replace_py :: "'a list \<Rightarrow> 'a list \<Rightarrow> 'a list \<Rightarrow> 'a list" where
  "replace_py old new s =
     (if old = [] then new @ concat (map (\<lambda>c. c # new) s)
      else if s = [] then []
      else if take (length old) s = old then new @ replace_py old new (drop (length old) s)
      else hd s # replace_py old new (tl s))"
  by pat_completeness auto
termination
  by (relation "measure (\<lambda>(old, new, s). length s)") auto

declare replace_py.simps [simp del]

definition is_ascii :: "codepoint \<Rightarrow> bool" where
  "is_ascii c = (c \<le> 127)"

text \<open>The body of \<open>normalize_text\<close> for a non-empty \<open>str\<close>. Code points: n = 110,
  the masculine ordinal indicator = 186, the full stop = 46.\<close>

definition normalize_str :: "unicodedata \<Rightarrow> ustring \<Rightarrow> ustring" where
  "normalize_str ud text =
     (let t1 = replace_py [186] [46] (replace_py [110, 186] [110, 46] text);
          t2 = normalize_NFKD ud t1;
          t3 = filter (\<lambda>c. combining ud c = 0) t2
      in filter is_ascii t3)"

definition normalize_text :: "unicodedata \<Rightarrow> pyval \<Rightarrow> py_exc + ustring" where
  "normalize_text ud text =
     (if \<not> py_truthy text then Inr []
      else case text of
             PStr s \<Rightarrow> Inr (normalize_str ud s)
           | _ \<Rightarrow> Inl AttributeError)"

text \<open>What the Unicode standard guarantees about ASCII text: it is its own NFKD form and
  holds no combining character.\<close>

definition ascii_stable :: "unicodedata \<Rightarrow> bool" where
  "ascii_stable ud =
     ((\<forall>s. list_all is_ascii s \<longrightarrow> normalize_NFKD ud s = s) \<and>
      (\<forall>c. is_ascii c \<longrightarrow> combining ud c = 0))"

text \<open>A small stand-in for the Unicode tables: n with tilde (241) and a with acute (225)
  decompose into the base letter and a combining mark; the combining diacritical marks
  (768 to 879) have a non-zero combining class.\<close>

definition decomp :: "codepoint \<Rightarrow> ustring" where
  "decomp c = (if c = 241 then [110, 771] else if c = 225 then [97, 769] else [c])"

definition ud0 :: unicodedata where
  "ud0 = \<lparr>normalize_NFKD = (\<lambda>s. concat (map decomp s)),
          combining = (\<lambda>c. if 768 \<le> c \<and> c \<le> 879 then 230 else 0)\<rparr>"

section \<open>Station records and the log\<close>

text \<open>The files the collector writes, below its base directory: the cumulative history
  \<open>csv/bicimad_stations_data.csv\<close>, the table of one collection
  \<open>csv/<date>/stations_<time>.csv\<close> and the raw answer
  \<open>collections/<date>/stations/stations_<time>.json\<close>.\<close>

datatype path =
    MainCsv
  | DailyCsv string string
  | SnapshotJson string string

text \<open>One row of the table. The numeric fields hold whatever the API sent.\<close>

record station_row =
  timestamp :: string
  station_id :: pyval
  name :: ustring
  address :: ustring
  longitude :: pyval
  latitude :: pyval
  total_bases :: pyval
  active_bases :: pyval
  available_bikes :: pyval
  free_bases :: pyval
  reservations :: pyval
  status :: int

datatype level = INFO | WARNING | ERROR

text \<open>The messages of the collector and of the two schedulers. \<open>MsgProgram\<close> stands for
  the four lines that announce start, end and interval; \<open>MsgWaitNext\<close> for the two lines
  before a sleep.\<close>

datatype event =
    MsgStart
  | MsgFetchError py_exc
  | MsgJsonSaved path
  | MsgInvalidFormat
  | MsgNoCoordinates pyval ustring
  | MsgNoStations
  | MsgProcessed nat
  | MsgExample station_row
  | MsgNoCsvData
  | MsgCsvUpdated
  | MsgCsvCreated
  | MsgDailySaved path
  | MsgSuccess
  | MsgProcessingFailed
  | MsgNoData
  | MsgCycleError py_exc
  | MsgScheduled int
  | MsgStarted
  | MsgInterrupted
  | MsgStats int int int
  | MsgCritical py_exc
  | MsgProgram int int int
  | MsgWaitStart int
  | MsgRunBegin
  | MsgRunDone
  | MsgRunError py_exc
  | MsgPastEnd
  | MsgWaitNext int
  | MsgFinished

type_synonym log_entry = "level \<times> event"

text \<open>
  What the program takes from Python and its libraries: the Unicode tables, the float
  arithmetic, and \<open>pd.DataFrame\<close>, which builds the table from the rows and gives each column
  one type; the values of a column may change with it (an \<open>int\<close> beside a \<open>float\<close> becomes
  a \<open>float\<close>, \<open>None\<close> beside numbers not-a-number). A table is given by its rows.
\<close>

record library =
  unicode_tables :: unicodedata
  float_ops :: floats
  data_frame :: "station_row list \<Rightarrow> station_row list"

section \<open>Extraction: \<open>process_stations_data\<close>\<close>

text \<open>\<open>station.get('geometry', {}).get('coordinates', [0, 0])[i]\<close>\<close>

definition coordinate :: "pyval \<Rightarrow> nat \<Rightarrow> py_exc + pyval" where
  "coordinate station i =
     try_bind (py_get station ''geometry'' (PDict [])) (\<lambda>g.
     try_bind (py_get g ''coordinates'' (PList [PInt 0, PInt 0])) (\<lambda>c.
     py_index c i))"

text \<open>\<open>if v == 0 and key in station: v = station.get(key, 0)\<close>\<close>

definition flat_fallback :: "pyval \<Rightarrow> string \<Rightarrow> pyval \<Rightarrow> py_exc + pyval" where
  "flat_fallback station k v =
     (if py_eq0 v \<and> has_key station k then py_get station k (PInt 0) else Inr v)"

text \<open>\<open>if v == 0 and 'light' in station and isinstance(station.get('light'), dict):
  v = station.get('light', {}).get(key, 0)\<close>\<close>

definition light_fallback :: "pyval \<Rightarrow> string \<Rightarrow> pyval \<Rightarrow> py_exc + pyval" where
  "light_fallback station k v =
     (if py_eq0 v \<and> has_key station ''light'' then
        try_bind (py_get station ''light'' PNone) (\<lambda>l.
        if is_dict l then
          try_bind (py_get station ''light'' (PDict [])) (\<lambda>l'. py_get l' k (PInt 0))
        else Inr v)
      else Inr v)"

text \<open>The body of the loop over the stations: the row of one station and the warnings
  it logs, or the exception it raises.\<close>

definition process_station ::
  "library \<Rightarrow> string \<Rightarrow> pyval \<Rightarrow> py_exc + (station_row \<times> log_entry list)" where
  "process_station lib ts station =
     try_bind (py_get station ''name'' (PStr [])) (\<lambda>name0.
     try_bind (normalize_text (unicode_tables lib) name0) (\<lambda>name'.
     try_bind (py_get station ''address'' (PStr [])) (\<lambda>address0.
     try_bind (normalize_text (unicode_tables lib) address0) (\<lambda>address'.
     try_bind (coordinate station 0) (\<lambda>longitude0.
     try_bind (coordinate station 1) (\<lambda>latitude0.
     try_bind (flat_fallback station ''longitude'' longitude0) (\<lambda>longitude'.
     try_bind (flat_fallback station ''latitude'' latitude0) (\<lambda>latitude'.
     try_bind (py_get station ''dock_bikes'' (PInt 0)) (\<lambda>availability0.
     try_bind (py_get station ''free_bases'' (PInt 0)) (\<lambda>free_bases0.
     try_bind (py_get station ''total_bases'' (PInt 0)) (\<lambda>total_bases0.
     try_bind (light_fallback station ''availability'' availability0) (\<lambda>availability.
     try_bind (light_fallback station ''free'' free_bases0) (\<lambda>free_bases'.
     try_bind (if py_eq0 total_bases0 then py_add (float_ops lib) availability free_bases'
               else Inr total_bases0) (\<lambda>total_bases'.
     try_bind (py_get station ''id'' PNone) (\<lambda>id'.
     try_bind (py_add (float_ops lib) availability free_bases') (\<lambda>active_bases'.
     try_bind (py_get station ''reservations'' (PInt 0)) (\<lambda>reservations'.
     try_bind (py_get station ''activate'' (PBool False)) (\<lambda>activate.
     Inr (\<lparr>timestamp = ts, station_id = id', name = name', address = address',
           longitude = longitude', latitude = latitude', total_bases = total_bases',
           active_bases = active_bases', available_bikes = availability,
           free_bases = free_bases', reservations = reservations',
           status = (if py_truthy activate then 1 else 0)\<rparr>,
          if py_eq0 longitude' \<or> py_eq0 latitude'
          then [(WARNING, MsgNoCoordinates id' name')] else [])))))))))))))))))))"

text \<open>The loop: \<open>rows\<close> grows by one row per station, the log by its warnings; the first
  exception leaves the loop, and what was logged before stays logged.\<close>

fun stations_loop ::
  "library \<Rightarrow> string \<Rightarrow> pyval list \<Rightarrow> station_row list \<Rightarrow> log_entry list
     \<Rightarrow> log_entry list \<times> (py_exc + station_row list)" where
  "stations_loop lib ts [] rows lg = (lg, Inr rows)"
| "stations_loop lib ts (station # rest) rows lg =
     (case process_station lib ts station of
        Inl e \<Rightarrow> (lg, Inl e)
      | Inr (row, warnings) \<Rightarrow> stations_loop lib ts rest (rows @ [row]) (lg @ warnings))"

text \<open>\<open>'data' in data\<close>: a key of a \<open>dict\<close>, an element of a \<open>list\<close>, a substring of a
  \<open>str\<close>; other objects are not containers.\<close>

fun contains_data :: "pyval \<Rightarrow> py_exc + bool" where
  "contains_data (PDict kvs) = Inr (map_of kvs ''data'' \<noteq> None)"
| "contains_data (PList xs) = Inr (PStr (ustr ''data'') \<in> set xs)"
| "contains_data (PStr s) =
     Inr (list_ex (\<lambda>i. take 4 (drop i s) = ustr ''data'') [0..<Suc (length s)])"
| "contains_data _ = Inl TypeError"

text \<open>\<open>data['data']\<close>: only a \<open>dict\<close> is indexed by a string.\<close>

fun getitem_data :: "pyval \<Rightarrow> py_exc + pyval" where
  "getitem_data (PDict kvs) =
     (case map_of kvs ''data'' of None \<Rightarrow> Inl KeyError | Some v \<Rightarrow> Inr v)"
| "getitem_data _ = Inl TypeError"

text \<open>\<open>for station in x\<close>: the elements of a \<open>list\<close>, the keys of a \<open>dict\<close>, the characters
  of a \<open>str\<close>.\<close>

fun py_iter :: "pyval \<Rightarrow> py_exc + pyval list" where
  "py_iter (PList xs) = Inr xs"
| "py_iter (PDict kvs) = Inr (map (\<lambda>k. PStr (ustr k)) (remdups (map fst kvs)))"
| "py_iter (PStr s) = Inr (map (\<lambda>c. PStr [c]) s)"
| "py_iter _ = Inl TypeError"

text \<open>The result is the log written and either the exception raised, or \<open>None\<close>, or the
  table built from the rows. \<open>ts\<close> is the time of the call, already formatted.\<close>

definition process_stations_data ::
  "library \<Rightarrow> string \<Rightarrow> pyval
     \<Rightarrow> log_entry list \<times> (py_exc + station_row list option)" where
  "process_stations_data lib ts data =
     (if \<not> py_truthy data then ([(ERROR, MsgInvalidFormat)], Inr None)
      else case contains_data data of
        Inl e \<Rightarrow> ([], Inl e)
      | Inr False \<Rightarrow> ([(ERROR, MsgInvalidFormat)], Inr None)
      | Inr True \<Rightarrow>
        (case try_bind (getitem_data data) py_iter of
           Inl e \<Rightarrow> ([], Inl e)
         | Inr stations \<Rightarrow>
           (case stations_loop lib ts stations [] [] of
              (lg, Inl e) \<Rightarrow> (lg, Inl e)
            | (lg, Inr rows) \<Rightarrow>
              if rows = [] then (lg @ [(ERROR, MsgNoStations)], Inr None)
              else
                let df = data_frame lib rows in
                (lg @ [(INFO, MsgProcessed (length df))]
                    @ (if df \<noteq> [] then [(INFO, MsgExample (hd df))] else []),
                 Inr (Some df)))))"

text \<open>The row an entry yields, when it yields one.\<close>

definition extract_row :: "library \<Rightarrow> string \<Rightarrow> pyval \<Rightarrow> station_row option" where
  "extract_row lib ts station =
     (case process_station lib ts station of Inl e \<Rightarrow> None | Inr (row, warnings) \<Rightarrow> Some row)"

text \<open>The warning about unresolved coordinates, read off a row: one line when its
  longitude or its latitude equals zero, none otherwise.\<close>

definition coordinate_warning :: "station_row \<Rightarrow> log_entry list" where
  "coordinate_warning row =
     (if py_eq0 (longitude row) \<or> py_eq0 (latitude row)
      then [(WARNING, MsgNoCoordinates (station_id row) (name row))] else [])"

text \<open>What \<open>process_stations_data\<close> logs after the loop, for a table \<open>df\<close>.\<close>

definition table_log :: "station_row list \<Rightarrow> log_entry list" where
  "table_log df =
     (INFO, MsgProcessed (length df)) # (if df \<noteq> [] then [(INFO, MsgExample (hd df))] else [])"

text \<open>The text fields \<open>normalize_text\<close> accepts: a \<open>str\<close>, or anything false.\<close>

fun is_text :: "pyval \<Rightarrow> bool" where
  "is_text (PStr s) = True"
| "is_text v = (\<not> py_truthy v)"

section \<open>The collector: files, counters and one collection\<close>

text \<open>
  A file is a sequence of lines: the header of a table, a row of a table, or the JSON text
  of a raw answer. Appending to a file adds lines after the ones it holds. The file system
  maps a path to the file stored there, if any.
\<close>

datatype line = Header "string list" | Row station_row | Json pyval

record world =
  files :: "path \<Rightarrow> line list option"
  log :: "log_entry list"

text \<open>\<open>collection_stats\<close>, the counters of one \<open>BiciMADCollector\<close> object.\<close>

record collection_stats =
  start_time :: string
  collections_made :: int
  total_files :: int
  errors :: int

text \<open>
  What one collection meets outside the program: the outcome of the HTTP request (an
  exception or the decoded answer), the readings of the clock, already formatted, at the
  calls of \<open>datetime.now()\<close>, and for each path whether writing to it raises. A write that
  raises is taken to leave the file system as it was (no partial file). The library is
  carried along.
\<close>

record cycle_env =
  library :: library
  fetch :: "py_exc + pyval"
  json_date :: string
  json_time :: string
  process_time :: string
  csv_date :: string
  csv_time :: string
  write_error :: "path \<Rightarrow> py_exc option"

definition log_add :: "level \<Rightarrow> event \<Rightarrow> world \<Rightarrow> world" where
  "log_add l e w = w\<lparr>log := log w @ [(l, e)]\<rparr>"

text \<open>The columns of the table, in the order of the keys of \<open>station_data\<close>.\<close>

definition columns :: "string list" where
  "columns = [''timestamp'', ''station_id'', ''name'', ''address'', ''longitude'', ''latitude'',
     ''total_bases'', ''active_bases'', ''available_bikes'', ''free_bases'', ''reservations'',
     ''status'']"

text \<open>\<open>get_station_info\<close>: only a \<open>RequestException\<close> is caught.\<close>

definition get_station_info ::
  "cycle_env \<Rightarrow> collection_stats \<Rightarrow> world \<Rightarrow> (py_exc + pyval) \<times> collection_stats \<times> world" where
  "get_station_info env c w =
     (case fetch env of
        Inr data \<Rightarrow> (Inr data, c, w)
      | Inl e \<Rightarrow>
          if e = RequestException
          then (Inr PNone, c\<lparr>errors := errors c + 1\<rparr>, log_add ERROR (MsgFetchError e) w)
          else (Inl e, c, w))"

text \<open>\<open>save_json_data\<close>: the file is written whole, replacing a file of the same name.\<close>

definition save_json_data ::
  "cycle_env \<Rightarrow> pyval \<Rightarrow> collection_stats \<Rightarrow> world
     \<Rightarrow> (py_exc + path option) \<times> collection_stats \<times> world" where
  "save_json_data env data c w =
     (if data = PNone then (Inr None, c, w)
      else
        let filename = SnapshotJson (json_date env) (json_time env) in
        case write_error env filename of
          Some e \<Rightarrow> (Inl e, c, w)
        | None \<Rightarrow>
            (Inr (Some filename),
             c\<lparr>total_files := total_files c + 1\<rparr>,
             log_add INFO (MsgJsonSaved filename)
               (w\<lparr>files := (files w)(filename \<mapsto> [Json data])\<rparr>)))"

text \<open>\<open>update_csv\<close>: the cumulative table first, then the table of this collection.\<close>

definition update_csv ::
  "cycle_env \<Rightarrow> station_row list option \<Rightarrow> collection_stats \<Rightarrow> world
     \<Rightarrow> (py_exc + unit) \<times> collection_stats \<times> world" where
  "update_csv env df c w =
     (if df = None \<or> df = Some [] then (Inr (), c, log_add WARNING MsgNoCsvData w)
      else
        let rows = (case df of Some rs \<Rightarrow> rs | None \<Rightarrow> []) in
        case write_error env MainCsv of
          Some e \<Rightarrow> (Inl e, c, w)
        | None \<Rightarrow>
            let w1 = (case files w MainCsv of
                        Some old \<Rightarrow>
                          log_add INFO MsgCsvUpdated
                            (w\<lparr>files := (files w)(MainCsv \<mapsto> old @ map Row rows)\<rparr>)
                      | None \<Rightarrow>
                          log_add INFO MsgCsvCreated
                            (w\<lparr>files := (files w)(MainCsv \<mapsto> Header columns # map Row rows)\<rparr>));
                daily_csv_path = DailyCsv (csv_date env) (csv_time env)
            in case write_error env daily_csv_path of
                 Some e \<Rightarrow> (Inl e, c, w1)
               | None \<Rightarrow>
                   (Inr (), c,
                    log_add INFO (MsgDailySaved daily_csv_path)
                      (w1\<lparr>files := (files w1)(daily_csv_path \<mapsto> Header columns # map Row rows)\<rparr>)))"

text \<open>The body of the \<open>try\<close> of \<open>collect_data\<close>.\<close>

definition collect_body ::
  "cycle_env \<Rightarrow> collection_stats \<Rightarrow> world \<Rightarrow> (py_exc + unit) \<times> collection_stats \<times> world" where
  "collect_body env c w =
     (case get_station_info env c (log_add INFO MsgStart w) of
        (Inl e, c1, w1) \<Rightarrow> (Inl e, c1, w1)
      | (Inr data, c1, w1) \<Rightarrow>
          if py_truthy data then
            (case save_json_data env data c1 w1 of
               (Inl e, c2, w2) \<Rightarrow> (Inl e, c2, w2)
             | (Inr saved, c2, w2) \<Rightarrow>
                 (case process_stations_data (library env) (process_time env) data of
                    (lg, Inl e) \<Rightarrow> (Inl e, c2, w2\<lparr>log := log w2 @ lg\<rparr>)
                  | (lg, Inr df) \<Rightarrow>
                      let w3 = w2\<lparr>log := log w2 @ lg\<rparr> in
                      if df \<noteq> None \<and> df \<noteq> Some [] then
                        (case update_csv env df c2 w3 of
                           (Inl e, c4, w4) \<Rightarrow> (Inl e, c4, w4)
                         | (Inr u, c4, w4) \<Rightarrow>
                             (Inr (), c4\<lparr>collections_made := collections_made c4 + 1\<rparr>,
                              log_add INFO MsgSuccess w4))
                      else
                        (Inr (), c2\<lparr>errors := errors c2 + 1\<rparr>,
                         log_add ERROR MsgProcessingFailed w3)))
          else (Inr (), c1\<lparr>errors := errors c1 + 1\<rparr>, log_add ERROR MsgNoData w1))"

text \<open>\<open>collect_data\<close>: any exception of the body is logged and counted; none leaves.\<close>

definition collect_data ::
  "cycle_env \<Rightarrow> collection_stats \<Rightarrow> world \<Rightarrow> collection_stats \<times> world" where
  "collect_data env c w =
     (case collect_body env c w of
        (Inr u, c', w') \<Rightarrow> (c', w')
      | (Inl e, c', w') \<Rightarrow> (c'\<lparr>errors := errors c' + 1\<rparr>, log_add ERROR (MsgCycleError e) w'))"

text \<open>The counters of a new \<open>BiciMADCollector\<close>.\<close>

definition new_stats :: "string \<Rightarrow> collection_stats" where
  "new_stats now = \<lparr>start_time = now, collections_made = 0, total_files = 0, errors = 0\<rparr>"

definition show_stats :: "collection_stats \<Rightarrow> world \<Rightarrow> world" where
  "show_stats c w = log_add INFO (MsgStats (collections_made c) (total_files c) (errors c)) w"

section \<open>Interval mode: \<open>main\<close> of the data collector\<close>

text \<open>
  One collector object serves every collection of the process: the first one at once, the
  later ones when the \<open>schedule\<close> library finds them due, until the user interrupts.
  \<open>later\<close> lists what the collections that took place before the interrupt met.
  \<open>init_error\<close> is the exception of the constructor, if any (a missing access token);
  \<open>interval\<close> the outcome of reading \<open>COLLECTION_INTERVAL_MINUTES\<close> as an integer.
\<close>

fun run_cycles ::
  "cycle_env list \<Rightarrow> collection_stats \<Rightarrow> world \<Rightarrow> collection_stats \<times> world" where
  "run_cycles [] c w = (c, w)"
| "run_cycles (env # envs) c w =
     (case collect_data env c w of (c', w') \<Rightarrow> run_cycles envs c' w')"

definition main_interval ::
  "py_exc option \<Rightarrow> string \<Rightarrow> py_exc + int \<Rightarrow> cycle_env \<Rightarrow> cycle_env list \<Rightarrow> world
     \<Rightarrow> collection_stats option \<times> world" where
  "main_interval init_error now interval first later w =
     (case init_error of
        Some e \<Rightarrow> (None, log_add ERROR (MsgCritical e) w)
      | None \<Rightarrow>
          (case collect_data first (new_stats now) w of
             (c1, w1) \<Rightarrow>
               (case interval of
                  Inl e \<Rightarrow> (Some c1, log_add ERROR (MsgCritical e) w1)
                | Inr minutes \<Rightarrow>
                    (case run_cycles later c1
                            (log_add INFO MsgStarted (log_add INFO (MsgScheduled minutes) w1)) of
                       (c2, w2) \<Rightarrow> (Some c2, show_stats c2 (log_add INFO MsgInterrupted w2))))))"

section \<open>Windowed mode: \<open>main\<close> of the scheduled collector\<close>

text \<open>
  Times are integers, in microseconds. What one turn of the loop meets: the exception of
  the constructor, if any, the clock reading the new collector stores, the environment of
  the collection, and three differences between readings of \<open>datetime.now()\<close>: \<open>duration\<close>,
  from the start of the turn to the reading after the collection; \<open>gap\<close>, from that reading
  to the next one, before the sleep; \<open>oversleep\<close>, by which the clock after the sleep exceeds
  the time the sleep was to end at. \<open>datetime.now()\<close> is the local wall clock: a difference
  is negative when the clock is set back in between (the end of daylight saving time, an
  adjustment).
\<close>

record tick =
  init_error :: "py_exc option"
  init_now :: string
  cycle :: cycle_env
  duration :: int
  gap :: int
  oversleep :: int

text \<open>What the loop did in one turn: the value of \<open>next_run\<close> that admitted the turn, the
  time at which it began, the reading after the collection, and the counters of the
  collector it created (none when the constructor raised).\<close>

record run =
  scheduled :: int
  started :: int
  finished :: int
  result :: "collection_stats option"

text \<open>The \<open>try\<close> inside the loop: a new collector for every run.\<close>

definition run_once :: "tick \<Rightarrow> world \<Rightarrow> collection_stats option \<times> world" where
  "run_once tk w =
     (case init_error tk of
        Some e \<Rightarrow> (None, log_add ERROR (MsgRunError e) w)
      | None \<Rightarrow>
          (case collect_data (cycle tk) (new_stats (init_now tk)) w of
             (c, w') \<Rightarrow> (Some c, log_add INFO MsgRunDone w')))"

text \<open>The \<open>while\<close> loop. \<open>clock\<close> is the time at which the turn begins. The result is \<open>None\<close>
  when the loop wants another turn and \<open>ticks\<close> describes no more.\<close>

fun window_loop ::
  "int \<Rightarrow> int \<Rightarrow> tick list \<Rightarrow> int \<Rightarrow> int \<Rightarrow> world \<Rightarrow> run list \<Rightarrow> (run list \<times> world) option" where
  "window_loop end_time interval [] next_run clock w runs =
     (if next_run \<le> end_time then None else Some (runs, log_add INFO MsgFinished w))"
| "window_loop end_time interval (tk # ticks) next_run clock w runs =
     (if next_run \<le> end_time then
        (case run_once tk (log_add INFO MsgRunBegin w) of
           (res, w1) \<Rightarrow>
             let after = clock + duration tk;
                 runs' = runs @ [\<lparr>scheduled = next_run, started = clock, finished = after,
                                  result = res\<rparr>];
                 next_run' = after + interval
             in if next_run' > end_time
                then Some (runs', log_add INFO MsgFinished (log_add INFO MsgPastEnd w1))
                else
                  let before_sleep = after + gap tk;
                      wait = next_run' - before_sleep
                  in if wait > 0
                     then window_loop end_time interval ticks next_run'
                            (next_run' + oversleep tk) (log_add INFO (MsgWaitNext wait) w1) runs'
                     else window_loop end_time interval ticks next_run' before_sleep w1 runs')
      else Some (runs, log_add INFO MsgFinished w))"

text \<open>\<open>main\<close>. The start and the end of the window are written in the source (tomorrow at
  nine, 15 April 2025 at nine) with the invitation to change them: they are parameters.
  \<open>now\<close> is the reading before the wait for the start; \<open>late\<close> the difference between the
  reading that sets \<open>next_run\<close> and the start (or \<open>now\<close>, when the start has passed).\<close>

definition main_windowed ::
  "int \<Rightarrow> int \<Rightarrow> int \<Rightarrow> int \<Rightarrow> int \<Rightarrow> tick list \<Rightarrow> world \<Rightarrow> (run list \<times> world) option" where
  "main_windowed t_start t_end interval_minutes now late ticks w =
     (let interval_seconds = interval_minutes * 60;
          interval = interval_seconds * 1000000;
          w0 = log_add INFO (MsgProgram t_start t_end interval_minutes) w;
          w1 = (if now < t_start then log_add INFO (MsgWaitStart (t_start - now)) w0 else w0);
          next_run = (if now < t_start then t_start else now) + late
      in window_loop t_end interval ticks next_run next_run w1 [])"

text \<open>Adding the counters of one collection to those of a collector.\<close>

definition add_stats :: "collection_stats \<Rightarrow> collection_stats \<Rightarrow> collection_stats" where
  "add_stats c d =
     c\<lparr>collections_made := collections_made c + collections_made d,
       total_files := total_files c + total_files d,
       errors := errors c + errors d\<rparr>"

text \<open>The empty file system with an empty log.\<close>

definition no_files :: world where
  "no_files = \<lparr>files = (\<lambda>p. None), log = []\<rparr>"

text \<open>What one collection counts on its own: its counters from zero.\<close>

definition cycle_delta :: "cycle_env \<Rightarrow> collection_stats" where
  "cycle_delta env = fst (collect_data env (new_stats []) no_files)"

section \<open>Sample stations\<close>

text \<open>A complete station (its name ends in an accented a, its address holds the ordinal
  indicator after an n), a station whose reported total is
  below its bikes plus free bases, a station that only has the nested \<open>light\<close> counts and
  no coordinates, a station with a single coordinate, one whose name is a number, and
  one whose counts are the two infinities (\<open>1e999\<close> and \<open>-1e999\<close> in the answer). No sample
  adds two finite floats or converts an \<open>int\<close>, and the tables built below hold one type
  per column, which \<open>pd.DataFrame\<close> leaves as it is: the library of the samples adds
  exactly and returns the rows it is given.\<close>

definition lib0 :: library where
  "lib0 = \<lparr>unicode_tables = ud0,
           float_ops = \<lparr>add_finite = (\<lambda>a b. Finite (a + b)),
                        int_to_float = (\<lambda>i. Some (of_int i))\<rparr>,
           data_frame = (\<lambda>rows. rows)\<rparr>"

definition ts0 :: string where
  "ts0 = ''2025-04-06 10:15:00''"

definition station_a :: pyval where
  "station_a = PDict [(''id'', PInt 1), (''name'', PStr [65, 108, 99, 97, 108, 225]),
     (''address'', PStr [110, 186, 32, 50]),
     (''geometry'', PDict [(''coordinates'', PList [PFloat (Finite (- 37 / 10)), PFloat (Finite (404 / 10))])]),
     (''dock_bikes'', PInt 10), (''free_bases'', PInt 12), (''total_bases'', PInt 24),
     (''activate'', PInt 1)]"

definition row_a :: station_row where
  "row_a = \<lparr>timestamp = ts0, station_id = PInt 1,
            name = [65, 108, 99, 97, 108, 97], address = [110, 46, 32, 50],
            longitude = PFloat (Finite (- 37 / 10)), latitude = PFloat (Finite (404 / 10)),
            total_bases = PInt 24, active_bases = PInt 22, available_bikes = PInt 10,
            free_bases = PInt 12, reservations = PInt 0, status = 1\<rparr>"

definition station_low :: pyval where
  "station_low = PDict [(''id'', PInt 2),
     (''geometry'', PDict [(''coordinates'', PList [PFloat (Finite (- 37 / 10)), PFloat (Finite (404 / 10))])]),
     (''dock_bikes'', PInt 10), (''free_bases'', PInt 10), (''total_bases'', PInt 5)]"

definition row_low :: station_row where
  "row_low = \<lparr>timestamp = ts0, station_id = PInt 2, name = [], address = [],
            longitude = PFloat (Finite (- 37 / 10)), latitude = PFloat (Finite (404 / 10)),
            total_bases = PInt 5, active_bases = PInt 20, available_bikes = PInt 10,
            free_bases = PInt 10, reservations = PInt 0, status = 0\<rparr>"

definition station_light :: pyval where
  "station_light = PDict [(''id'', PInt 3),
     (''light'', PDict [(''availability'', PInt 4), (''free'', PInt 3)])]"

definition row_light :: station_row where
  "row_light = \<lparr>timestamp = ts0, station_id = PInt 3, name = [], address = [],
            longitude = PInt 0, latitude = PInt 0,
            total_bases = PInt 7, active_bases = PInt 7, available_bikes = PInt 4,
            free_bases = PInt 3, reservations = PInt 0, status = 0\<rparr>"

definition station_short :: pyval where
  "station_short = PDict [(''id'', PInt 4), (''name'', PStr [83, 111, 108]),
     (''geometry'', PDict [(''coordinates'', PList [PFloat (Finite (- 37 / 10))])])]"

definition station_numbered :: pyval where
  "station_numbered = PDict [(''id'', PInt 5), (''name'', PInt 5),
     (''geometry'', PDict [(''coordinates'', PList [])])]"

definition station_inf :: pyval where
  "station_inf = PDict [(''id'', PInt 6),
     (''geometry'', PDict [(''coordinates'', PList [PFloat (Finite (- 37 / 10)), PFloat (Finite (404 / 10))])]),
     (''dock_bikes'', PFloat PosInf), (''free_bases'', PFloat NegInf)]"

definition row_inf :: station_row where
  "row_inf = \<lparr>timestamp = ts0, station_id = PInt 6, name = [], address = [],
            longitude = PFloat (Finite (- 37 / 10)), latitude = PFloat (Finite (404 / 10)),
            total_bases = PFloat NaN, active_bases = PFloat NaN,
            available_bikes = PFloat PosInf, free_bases = PFloat NegInf,
            reservations = PInt 0, status = 0\<rparr>"

section \<open>Sample collections\<close>

definition payload_a :: pyval where
  "payload_a = PDict [(''code'', PStr [48, 48]), (''data'', PList [station_a])]"

text \<open>A collection in which everything works, and one in which the request fails.\<close>

definition env_ok :: cycle_env where
  "env_ok = \<lparr>library = lib0, fetch = Inr payload_a, json_date = ''20250406'',
             json_time = ''101500'', process_time = ts0, csv_date = ''20250406'',
             csv_time = ''101501'', write_error = (\<lambda>p. None)\<rparr>"

definition tick_ok :: tick where
  "tick_ok = \<lparr>init_error = None, init_now = ts0, cycle = env_ok,
              duration = 0, gap = 0, oversleep = 0\<rparr>"

text \<open>The same turn, with a collection that takes one second.\<close>

definition tick_1s :: tick where
  "tick_1s = tick_ok\<lparr>duration := 1000000\<rparr>"

section \<open>Properties of text normalisation\<close>

lemma replace_py_absent:
  "c \<in> set old \<Longrightarrow> c \<notin> set s \<Longrightarrow> replace_py old new s = s"
proof (induction s)
  case Nil
  then show ?case by (subst replace_py.simps) auto
next
  case (Cons x xs)
  have ne: "take (length old) (x # xs) \<noteq> old"
  proof
    assume "take (length old) (x # xs) = old"
    then have "set old \<subseteq> set (x # xs)"
      by (metis set_take_subset)
    with Cons.prems show False by auto
  qed
  from Cons.prems have "replace_py old new xs = xs"
    by (intro Cons.IH) auto
  with ne Cons.prems show ?case
    by (subst replace_py.simps) auto
qed

lemma normalize_str_ascii: "list_all is_ascii (normalize_str ud s)"
  by (simp add: normalize_str_def Let_def list_all_iff)

lemma normalize_str_fixes_ascii:
  assumes st: "ascii_stable ud" and asc: "list_all is_ascii s"
  shows "normalize_str ud s = s"
proof -
  have no186: "186 \<notin> set s"
    using asc by (auto simp: list_all_iff is_ascii_def)
  have r1: "replace_py [110, 186] [110, 46] s = s"
    by (rule replace_py_absent [of 186]) (use no186 in auto)
  have r2: "replace_py [186] [46] s = s"
    by (rule replace_py_absent [of 186]) (use no186 in auto)
  have n: "normalize_NFKD ud s = s"
    using st asc by (simp add: ascii_stable_def)
  have c: "filter (\<lambda>c. combining ud c = 0) s = s"
    using st asc by (auto simp: ascii_stable_def list_all_iff intro!: filter_True)
  have a: "filter is_ascii s = s"
    using asc by (auto simp: list_all_iff intro!: filter_True)
  show ?thesis
    by (simp only: normalize_str_def Let_def r1 r2 n c a)
qed

lemma ud0_ascii_stable: "ascii_stable ud0"
proof -
  have "concat (map decomp s) = s" if "list_all is_ascii s" for s
    using that by (induction s) (auto simp: decomp_def is_ascii_def)
  then show ?thesis
    by (auto simp: ascii_stable_def ud0_def is_ascii_def)
qed

text \<open>
  C7. Text normalisation is idempotent: for every string \<open>s\<close>, normalising succeeds and
  normalising its result again returns that result unchanged. The Unicode tables are
  parameters; they are assumed to leave ASCII text alone, as the standard guarantees.
\<close>

theorem normalize_text_idempotent:
  assumes "ascii_stable ud"
  shows "\<exists>t. normalize_text ud (PStr s) = Inr t \<and> normalize_text ud (PStr t) = Inr t"
proof -
  let ?t = "if s = [] then [] else normalize_str ud s"
  have first: "normalize_text ud (PStr s) = Inr ?t"
    by (simp add: normalize_text_def)
  have asc: "list_all is_ascii ?t"
    by (simp add: normalize_str_ascii)
  have "normalize_text ud (PStr ?t) = Inr ?t"
    using normalize_str_fixes_ascii [OF assms asc] by (simp add: normalize_text_def)
  with first show ?thesis by blast
qed

text \<open>"Plaza de Espana n 3", written with n tilde (241) and with the ordinal indicator (186)
  after the last n, becomes "Plaza de Espana n. 3" in ASCII, a fixed point.\<close>

theorem normalize_text_idempotent_witness:
  "ascii_stable ud0 \<and>
   normalize_text ud0 (PStr [80, 108, 97, 122, 97, 32, 100, 101, 32, 69, 115, 112, 97, 241, 97,
                             32, 110, 186, 32, 51])
     = Inr [80, 108, 97, 122, 97, 32, 100, 101, 32, 69, 115, 112, 97, 110, 97, 32, 110, 46, 32, 51] \<and>
   (\<exists>t. normalize_text ud0 (PStr [80, 108, 97, 122, 97, 32, 100, 101, 32, 69, 115, 112, 97, 241, 97,
                             32, 110, 186, 32, 51]) = Inr t \<and>
        normalize_text ud0 (PStr t) = Inr t)"
proof -
  have ev: "normalize_text ud0 (PStr [80, 108, 97, 122, 97, 32, 100, 101, 32, 69, 115, 112, 97, 241, 97,
                             32, 110, 186, 32, 51])
     = Inr [80, 108, 97, 122, 97, 32, 100, 101, 32, 69, 115, 112, 97, 110, 97, 32, 110, 46, 32, 51]"
    by (simp add: normalize_text_def normalize_str_def ud0_def decomp_def is_ascii_def
        replace_py.simps)
  show ?thesis
    using ud0_ascii_stable ev normalize_text_idempotent [OF ud0_ascii_stable] by blast
qed

section \<open>Properties of the extraction\<close>

lemma try_bind_Inr: "try_bind x f = Inr r \<longleftrightarrow> (\<exists>v. x = Inr v \<and> f v = Inr r)"
  by (cases x) auto

lemmas eval_defs = process_station_def coordinate_def flat_fallback_def light_fallback_def
  py_add_def dict_get_def normalize_text_def normalize_str_def lib0_def ud0_def decomp_def
  is_ascii_def replace_py.simps

lemma data_frame_lib0: "data_frame lib0 rows = rows"
  by (simp add: lib0_def)

lemma process_station_a: "process_station lib0 ts0 station_a = Inr (row_a, [])"
  by (simp add: station_a_def row_a_def eval_defs)

lemma process_station_low: "process_station lib0 ts0 station_low = Inr (row_low, [])"
  by (simp add: station_low_def row_low_def eval_defs)

lemma process_station_light:
  "process_station lib0 ts0 station_light
     = Inr (row_light, [(WARNING, MsgNoCoordinates (PInt 3) [])])"
  by (simp add: station_light_def row_light_def eval_defs)

lemma process_station_inf: "process_station lib0 ts0 station_inf = Inr (row_inf, [])"
  by (simp add: station_inf_def row_inf_def eval_defs)

lemma process_station_not_dict:
  "\<not> is_dict station \<Longrightarrow> process_station lib ts station = Inl AttributeError"
  by (cases station) (simp_all add: process_station_def)

lemma process_station_dict:
  "process_station lib ts station = Inr (row, w) \<Longrightarrow> \<exists>kvs. station = PDict kvs"
  using process_station_not_dict [of station lib ts] by (cases station) auto

lemma process_station_sum:
  assumes "process_station lib ts station = Inr (row, w)"
  shows "py_add (float_ops lib) (available_bikes row) (free_bases row) = Inr (active_bases row)"
  using assms by (auto simp: process_station_def try_bind_Inr)

lemma process_station_total:
  assumes "process_station lib ts (PDict kvs) = Inr (row, w)"
  shows "if py_eq0 (dict_get kvs ''total_bases'' (PInt 0))
         then py_add (float_ops lib) (available_bikes row) (free_bases row)
                = Inr (total_bases row)
         else total_bases row = dict_get kvs ''total_bases'' (PInt 0)"
  using assms by (auto simp: process_station_def try_bind_Inr split: if_splits)

lemma process_station_warning:
  assumes "process_station lib ts station = Inr (row, w)"
  shows "w = coordinate_warning row"
  using assms by (auto simp: process_station_def try_bind_Inr coordinate_warning_def)

lemma py_eq_self: "num_of v \<noteq> None \<Longrightarrow> py_eq v v = Some (\<not> is_nan v)"
proof (cases v)
  case (PFloat f)
  then show ?thesis by (cases f) (simp_all add: py_eq_def float_eq_def)
qed (simp_all add: py_eq_def float_eq_def)

lemma py_ge_self: "num_of v \<noteq> None \<Longrightarrow> py_ge v v = Some (\<not> is_nan v)"
proof (cases v)
  case (PFloat f)
  then show ?thesis by (cases f) (simp_all add: py_ge_def)
qed (simp_all add: py_ge_def)

lemma normalize_text_cases:
  "normalize_text ud v =
     (if is_text v
      then Inr (case v of PStr s \<Rightarrow> if s = [] then [] else normalize_str ud s | _ \<Rightarrow> [])
      else Inl AttributeError)"
  by (cases v) (auto simp: normalize_text_def)

lemma process_station_short:
  assumes "map_of kvs ''geometry'' = Some (PDict g)"
      and "map_of g ''coordinates'' = Some (PList cs)"
      and "length cs < 2"
  shows "process_station lib ts (PDict kvs) =
           (if is_text (dict_get kvs ''name'' (PStr [])) \<and>
               is_text (dict_get kvs ''address'' (PStr []))
            then Inl IndexError else Inl AttributeError)"
  using assms
  by (auto simp: process_station_def coordinate_def dict_get_def normalize_text_cases)

lemma extract_row_Some:
  "extract_row lib ts st \<noteq> None \<Longrightarrow>
     process_station lib ts st
       = Inr (the (extract_row lib ts st), coordinate_warning (the (extract_row lib ts st)))"
  by (auto simp: extract_row_def split: sum.splits dest: process_station_warning)

lemma stations_loop_all_ok:
  assumes "\<forall>st\<in>set sts. extract_row lib ts st \<noteq> None"
  shows "stations_loop lib ts sts rows lg =
           (lg @ concat (map coordinate_warning (map (\<lambda>st. the (extract_row lib ts st)) sts)),
            Inr (rows @ map (\<lambda>st. the (extract_row lib ts st)) sts))"
  using assms
proof (induction sts arbitrary: rows lg)
  case Nil
  then show ?case by simp
next
  case (Cons st sts)
  then show ?case by (simp add: extract_row_Some)
qed

lemma stations_loop_first_bad:
  assumes "\<forall>st\<in>set pre. extract_row lib ts st \<noteq> None"
      and "process_station lib ts bad = Inl e"
  shows "stations_loop lib ts (pre @ bad # post) rows lg =
           (lg @ concat (map coordinate_warning (map (\<lambda>st. the (extract_row lib ts st)) pre)),
            Inl e)"
  using assms
proof (induction pre arbitrary: rows lg)
  case Nil
  then show ?case by simp
next
  case (Cons st pre)
  then show ?case by (simp add: extract_row_Some)
qed

lemma stations_loop_some_bad:
  assumes "st \<in> set sts" and "process_station lib ts st = Inl e"
  shows "\<exists>lg' e'. stations_loop lib ts sts rows lg = (lg', Inl e')"
proof -
  have "\<exists>x\<in>set sts. extract_row lib ts x = None"
    using assms by (auto simp: extract_row_def intro!: bexI [of _ st])
  then obtain pre bad post where sp: "sts = pre @ bad # post"
      and bad: "extract_row lib ts bad = None"
      and pre: "\<forall>x\<in>set pre. extract_row lib ts x \<noteq> None"
    using split_list_first_prop [of sts "\<lambda>x. extract_row lib ts x = None"] by blast
  from bad obtain e' where "process_station lib ts bad = Inl e'"
    by (auto simp: extract_row_def split: sum.splits)
  from stations_loop_first_bad [OF pre this] sp show ?thesis by blast
qed

lemma process_stations_data_list:
  assumes "map_of d ''data'' = Some (PList sts)"
  shows "process_stations_data lib ts (PDict d) =
     (case stations_loop lib ts sts [] [] of
        (lg, Inl e) \<Rightarrow> (lg, Inl e)
      | (lg, Inr rows) \<Rightarrow>
          if rows = [] then (lg @ [(ERROR, MsgNoStations)], Inr None)
          else (lg @ table_log (data_frame lib rows), Inr (Some (data_frame lib rows))))"
proof -
  from assms have "d \<noteq> []" by auto
  with assms show ?thesis
    by (auto simp: process_stations_data_def table_log_def Let_def
        split: prod.splits sum.splits)
qed

lemma rows_of_entries:
  assumes "\<forall>st\<in>set sts. extract_row lib ts st \<noteq> None"
  shows "map Some (map (\<lambda>st. the (extract_row lib ts st)) sts) = map (extract_row lib ts) sts"
  using assms by (induction sts) auto

text \<open>
  C5, as stated: every extracted record satisfies
  \<open>active_bases == available_bikes + free_bases\<close>. It fails for a station whose counts are
  \<open>1e999\<close> docked bikes and \<open>-1e999\<close> free bases, which \<open>json.loads\<close> reads as the two
  infinities: the record is extracted, its \<open>active_bases\<close> is not-a-number, and
  not-a-number equals nothing.
\<close>

theorem active_bases_nan_counterexample:
  "process_station lib0 ts0 station_inf = Inr (row_inf, []) \<and>
   py_add (float_ops lib0) (available_bikes row_inf) (free_bases row_inf) = Inr (PFloat NaN) \<and>
   py_eq (active_bases row_inf) (PFloat NaN) = Some False"
  using process_station_inf
  by (simp add: row_inf_def py_add_def py_eq_def float_eq_def)

text \<open>
  C5, amended. For every station object successfully extracted, the \<open>active_bases\<close> of the
  record built for it is the value of \<open>available_bikes + free_bases\<close> on the record's own
  values (those after the fallbacks); when that value is a number,
  \<open>active_bases == available_bikes + free_bases\<close> holds exactly when it is not not-a-number.
\<close>

theorem active_bases_is_sum:
  assumes "process_station lib ts station = Inr (row, w)"
  shows "\<exists>v. py_add (float_ops lib) (available_bikes row) (free_bases row) = Inr v \<and>
             active_bases row = v \<and>
             (num_of v \<noteq> None \<longrightarrow> py_eq (active_bases row) v = Some (\<not> is_nan v))"
  using process_station_sum [OF assms] py_eq_self by auto

theorem active_bases_is_sum_witness:
  "process_station lib0 ts0 station_light
     = Inr (row_light, [(WARNING, MsgNoCoordinates (PInt 3) [])]) \<and>
   available_bikes row_light = PInt 4 \<and> free_bases row_light = PInt 3 \<and>
   py_add (float_ops lib0) (available_bikes row_light) (free_bases row_light) = Inr (PInt 7) \<and>
   active_bases row_light = PInt 7 \<and>
   py_eq (active_bases row_light) (PInt 7) = Some True"
proof -
  have fields: "available_bikes row_light = PInt 4 \<and> free_bases row_light = PInt 3 \<and>
                active_bases row_light = PInt 7"
    by (simp add: row_light_def)
  from active_bases_is_sum [OF process_station_light] obtain v where
    v: "py_add (float_ops lib0) (available_bikes row_light) (free_bases row_light) = Inr v"
       "active_bases row_light = v"
       "num_of v \<noteq> None \<longrightarrow> py_eq (active_bases row_light) v = Some (\<not> is_nan v)"
    by blast
  with fields have "v = PInt 7" by simp
  with v fields process_station_light show ?thesis by simp
qed

text \<open>
  C6, as the specification states it: every extracted record has
  \<open>total_bases >= active_bases\<close>. It fails for a station that reports 5 bases in total,
  10 docked bikes and 10 free bases: the reported total is kept, next to 20 active bases.
\<close>

theorem total_bases_ge_active_counterexample:
  "process_station lib0 ts0 station_low = Inr (row_low, []) \<and>
   total_bases row_low = PInt 5 \<and> active_bases row_low = PInt 20 \<and>
   py_ge (total_bases row_low) (active_bases row_low) = Some False"
  using process_station_low by (simp add: row_low_def py_ge_def)

text \<open>
  C6, amended. An extracted station is a \<open>dict\<close>; when its \<open>total_bases\<close> is missing or
  equal to zero, the record's \<open>total_bases\<close> is computed as \<open>available_bikes + free_bases\<close>,
  the sum that also gives \<open>active_bases\<close>, so that \<open>total_bases == active_bases\<close> and
  \<open>total_bases >= active_bases\<close> hold whenever that sum is a number other than
  not-a-number; otherwise the record keeps the reported total unchanged, whatever
  \<open>active_bases\<close> is.
\<close>

theorem total_bases_fallback:
  assumes "process_station lib ts station = Inr (row, w)"
  shows "\<exists>kvs. station = PDict kvs \<and>
           (if py_eq0 (dict_get kvs ''total_bases'' (PInt 0))
            then py_add (float_ops lib) (available_bikes row) (free_bases row)
                   = Inr (total_bases row) \<and>
                 py_add (float_ops lib) (available_bikes row) (free_bases row)
                   = Inr (active_bases row) \<and>
                 (num_of (active_bases row) \<noteq> None \<and> \<not> is_nan (active_bases row) \<longrightarrow>
                    py_eq (total_bases row) (active_bases row) = Some True \<and>
                    py_ge (total_bases row) (active_bases row) = Some True)
            else total_bases row = dict_get kvs ''total_bases'' (PInt 0))"
proof -
  from assms obtain kvs where st: "station = PDict kvs"
    using process_station_dict by blast
  note sum = process_station_sum [OF assms]
  note tot = process_station_total [of lib ts kvs row w]
  show ?thesis
  proof (cases "py_eq0 (dict_get kvs ''total_bases'' (PInt 0))")
    case True
    with tot assms st
    have t: "py_add (float_ops lib) (available_bikes row) (free_bases row) = Inr (total_bases row)"
      by simp
    with sum have "total_bases row = active_bases row" by simp
    with True st t sum py_eq_self [of "active_bases row"] py_ge_self [of "active_bases row"]
    show ?thesis by auto
  next
    case False
    with tot assms st show ?thesis by auto
  qed
qed

theorem total_bases_fallback_witness:
  "process_station lib0 ts0 station_light
     = Inr (row_light, [(WARNING, MsgNoCoordinates (PInt 3) [])]) \<and>
   total_bases row_light = PInt 7 \<and> active_bases row_light = PInt 7 \<and>
   py_eq (total_bases row_light) (active_bases row_light) = Some True \<and>
   py_ge (total_bases row_light) (active_bases row_light) = Some True \<and>
   process_station lib0 ts0 station_a = Inr (row_a, []) \<and> total_bases row_a = PInt 24"
proof -
  have l: "station_light = PDict kvs \<Longrightarrow> py_eq0 (dict_get kvs ''total_bases'' (PInt 0))" for kvs
    by (auto simp: station_light_def dict_get_def)
  have a: "station_a = PDict kvs \<Longrightarrow> dict_get kvs ''total_bases'' (PInt 0) = PInt 24" for kvs
    by (auto simp: station_a_def dict_get_def)
  have n: "active_bases row_light = PInt 7" "total_bases row_light = PInt 7"
    by (simp_all add: row_light_def)
  from total_bases_fallback [OF process_station_light] l n
  have "py_eq (total_bases row_light) (active_bases row_light) = Some True \<and>
        py_ge (total_bases row_light) (active_bases row_light) = Some True"
    by auto
  moreover from total_bases_fallback [OF process_station_a] a
  have "total_bases row_a = PInt 24"
    by auto
  ultimately show ?thesis
    using process_station_light process_station_a n by blast
qed

text \<open>
  C1, as the specification states it: a payload with N valid entries and one malformed
  entry yields N records, and the batch does not fail. It fails for two valid stations
  with a \<open>null\<close> entry between them: no record comes out of the batch.
\<close>

theorem per_entry_isolation_counterexample:
  "extract_row lib0 ts0 station_a = Some row_a \<and>
   extract_row lib0 ts0 station_low = Some row_low \<and>
   process_station lib0 ts0 PNone = Inl AttributeError \<and>
   process_stations_data lib0 ts0 (PDict [(''data'', PList [station_a, PNone, station_low])])
     = ([], Inl AttributeError)"
  by (simp add: extract_row_def process_stations_data_def process_station_a
      process_station_low process_station_not_dict)

text \<open>
  C1, amended. For a payload with a \<open>data\<close> array, the entries are extracted in order and
  without isolation. When every entry yields a row, the table is built from exactly the
  rows of the entries, in order; for each row whose longitude or latitude equals zero one
  warning is logged and the row is kept; the failure value \<open>None\<close> is returned when the
  array is empty. When some entry raises, it is not skipped: no table is returned for the
  batch, whatever the other entries are.
\<close>

theorem extraction_without_isolation:
  assumes "map_of d ''data'' = Some (PList sts)"
  shows "((\<forall>st\<in>set sts. extract_row lib ts st \<noteq> None) \<longrightarrow>
            (\<exists>rows. map Some rows = map (extract_row lib ts) sts \<and>
               process_stations_data lib ts (PDict d) =
                 (if sts = [] then ([(ERROR, MsgNoStations)], Inr None)
                  else (concat (map coordinate_warning rows) @ table_log (data_frame lib rows),
                        Inr (Some (data_frame lib rows)))))) \<and>
         ((\<exists>st\<in>set sts. extract_row lib ts st = None) \<longrightarrow>
            (\<forall>df. snd (process_stations_data lib ts (PDict d)) \<noteq> Inr (Some df)))"
proof (intro conjI impI allI)
  assume ok: "\<forall>st\<in>set sts. extract_row lib ts st \<noteq> None"
  let ?rows = "map (\<lambda>st. the (extract_row lib ts st)) sts"
  have m: "map Some ?rows = map (extract_row lib ts) sts"
    using ok by (rule rows_of_entries)
  have "process_stations_data lib ts (PDict d) =
          (if sts = [] then ([(ERROR, MsgNoStations)], Inr None)
           else (concat (map coordinate_warning ?rows) @ table_log (data_frame lib ?rows),
                 Inr (Some (data_frame lib ?rows))))"
    by (simp add: process_stations_data_list [OF assms] stations_loop_all_ok [OF ok])
  with m show "\<exists>rows. map Some rows = map (extract_row lib ts) sts \<and>
               process_stations_data lib ts (PDict d) =
                 (if sts = [] then ([(ERROR, MsgNoStations)], Inr None)
                  else (concat (map coordinate_warning rows) @ table_log (data_frame lib rows),
                        Inr (Some (data_frame lib rows))))"
    by blast
next
  fix df
  assume "\<exists>st\<in>set sts. extract_row lib ts st = None"
  then obtain st where "st \<in> set sts" "extract_row lib ts st = None" by blast
  then obtain e where "st \<in> set sts" "process_station lib ts st = Inl e"
    by (auto simp: extract_row_def split: sum.splits)
  then obtain lg' e' where "stations_loop lib ts sts [] [] = (lg', Inl e')"
    using stations_loop_some_bad by blast
  then show "snd (process_stations_data lib ts (PDict d)) \<noteq> Inr (Some df)"
    by (simp add: process_stations_data_list [OF assms])
qed

theorem extraction_without_isolation_witness:
  "process_stations_data lib0 ts0 (PDict [(''data'', PList [station_a, station_low])])
     = ([(INFO, MsgProcessed 2), (INFO, MsgExample row_a)], Inr (Some [row_a, row_low])) \<and>
   process_stations_data lib0 ts0 (PDict [(''data'', PList [station_light])])
     = ([(WARNING, MsgNoCoordinates (PInt 3) []), (INFO, MsgProcessed 1),
         (INFO, MsgExample row_light)],
        Inr (Some [row_light])) \<and>
   snd (process_stations_data lib0 ts0 (PDict [(''data'', PList [station_light, PNone, station_a])]))
     \<noteq> Inr (Some [row_light, row_a])"
proof -
  have ra: "extract_row lib0 ts0 station_a = Some row_a"
    by (simp add: extract_row_def process_station_a)
  have rw: "extract_row lib0 ts0 station_low = Some row_low"
    by (simp add: extract_row_def process_station_low)
  have rl: "extract_row lib0 ts0 station_light = Some row_light"
    by (simp add: extract_row_def process_station_light)
  have bad: "extract_row lib0 ts0 PNone = None"
    by (simp add: extract_row_def process_station_not_dict)
  have wa: "coordinate_warning row_a = []"
    by (simp add: coordinate_warning_def row_a_def)
  have ww: "coordinate_warning row_low = []"
    by (simp add: coordinate_warning_def row_low_def)
  have wl: "coordinate_warning row_light = [(WARNING, MsgNoCoordinates (PInt 3) [])]"
    by (simp add: coordinate_warning_def row_light_def)
  have d1: "map_of [(''data'', PList [station_a, station_low])] ''data''
              = Some (PList [station_a, station_low])"
    by simp
  have d2: "map_of [(''data'', PList [station_light, PNone, station_a])] ''data''
              = Some (PList [station_light, PNone, station_a])"
    by simp
  have d3: "map_of [(''data'', PList [station_light])] ''data'' = Some (PList [station_light])"
    by simp
  have one: "process_stations_data lib0 ts0 (PDict [(''data'', PList [station_a, station_low])])
     = ([(INFO, MsgProcessed 2), (INFO, MsgExample row_a)], Inr (Some [row_a, row_low]))"
  proof -
    have all: "\<forall>st\<in>set [station_a, station_low]. extract_row lib0 ts0 st \<noteq> None"
      using ra rw by simp
    from extraction_without_isolation [OF d1, of lib0 ts0] all
    have "\<exists>rows. map Some rows = map (extract_row lib0 ts0) [station_a, station_low] \<and>
            process_stations_data lib0 ts0 (PDict [(''data'', PList [station_a, station_low])])
              = (if [station_a, station_low] = [] then ([(ERROR, MsgNoStations)], Inr None)
                 else (concat (map coordinate_warning rows) @ table_log (data_frame lib0 rows),
                       Inr (Some (data_frame lib0 rows))))"
      by blast
    then obtain rows where
      rows: "map Some rows = map (extract_row lib0 ts0) [station_a, station_low]"
      and r: "process_stations_data lib0 ts0 (PDict [(''data'', PList [station_a, station_low])])
              = (if [station_a, station_low] = [] then ([(ERROR, MsgNoStations)], Inr None)
                 else (concat (map coordinate_warning rows) @ table_log (data_frame lib0 rows),
                       Inr (Some (data_frame lib0 rows))))"
      by blast
    from rows ra rw have "rows = [row_a, row_low]" by auto
    with r wa ww show ?thesis
      by (simp add: table_log_def data_frame_lib0)
  qed
  have single: "process_stations_data lib0 ts0 (PDict [(''data'', PList [station_light])])
     = ([(WARNING, MsgNoCoordinates (PInt 3) []), (INFO, MsgProcessed 1),
         (INFO, MsgExample row_light)],
        Inr (Some [row_light]))"
  proof -
    have all: "\<forall>st\<in>set [station_light]. extract_row lib0 ts0 st \<noteq> None"
      using rl by simp
    from extraction_without_isolation [OF d3, of lib0 ts0] all
    have "\<exists>rows. map Some rows = map (extract_row lib0 ts0) [station_light] \<and>
            process_stations_data lib0 ts0 (PDict [(''data'', PList [station_light])])
              = (if [station_light] = [] then ([(ERROR, MsgNoStations)], Inr None)
                 else (concat (map coordinate_warning rows) @ table_log (data_frame lib0 rows),
                       Inr (Some (data_frame lib0 rows))))"
      by blast
    then obtain rows where
      rows: "map Some rows = map (extract_row lib0 ts0) [station_light]"
      and r: "process_stations_data lib0 ts0 (PDict [(''data'', PList [station_light])])
              = (if [station_light] = [] then ([(ERROR, MsgNoStations)], Inr None)
                 else (concat (map coordinate_warning rows) @ table_log (data_frame lib0 rows),
                       Inr (Some (data_frame lib0 rows))))"
      by blast
    from rows rl have "rows = [row_light]" by auto
    with r wl show ?thesis
      by (simp add: table_log_def data_frame_lib0)
  qed
  have three: "snd (process_stations_data lib0 ts0
                 (PDict [(''data'', PList [station_light, PNone, station_a])]))
               \<noteq> Inr (Some [row_light, row_a])"
    using extraction_without_isolation [OF d2, of lib0 ts0] bad by auto
  from one single three show ?thesis by blast
qed

text \<open>
  C10, as stated: every station whose \<open>geometry\<close> holds a \<open>coordinates\<close> list with fewer
  than two elements raises an index error. It fails for such a station whose \<open>name\<close> is
  the number 5: \<open>normalize_text\<close> runs before the coordinates are read and raises an
  attribute error.
\<close>

theorem short_coordinates_counterexample:
  "process_station lib0 ts0 station_numbered = Inl AttributeError \<and>
   process_station lib0 ts0 station_numbered \<noteq> Inl IndexError"
  by (simp add: station_numbered_def eval_defs)

text \<open>
  C10, amended. A station whose \<open>geometry\<close> mapping holds a \<open>coordinates\<close> list with fewer
  than two elements always raises: an index error when its \<open>name\<close> and \<open>address\<close> are
  absent, false or strings (the default \<open>[0, 0]\<close> is used only for a missing key), and the
  attribute error of \<open>normalize_text\<close> otherwise. A \<open>data\<close> array that holds such a
  station makes the whole extraction raise: the entry is not skipped.
\<close>

theorem short_coordinates_raise:
  assumes "map_of kvs ''geometry'' = Some (PDict g)"
      and "map_of g ''coordinates'' = Some (PList cs)"
      and "length cs < 2"
  shows "process_station lib ts (PDict kvs) =
           (if is_text (dict_get kvs ''name'' (PStr [])) \<and>
               is_text (dict_get kvs ''address'' (PStr []))
            then Inl IndexError else Inl AttributeError) \<and>
         (\<forall>d sts. map_of d ''data'' = Some (PList sts) \<and> PDict kvs \<in> set sts \<longrightarrow>
            (\<exists>lg e. process_stations_data lib ts (PDict d) = (lg, Inl e)))"
proof (intro conjI allI impI)
  show one: "process_station lib ts (PDict kvs) =
           (if is_text (dict_get kvs ''name'' (PStr [])) \<and>
               is_text (dict_get kvs ''address'' (PStr []))
            then Inl IndexError else Inl AttributeError)"
    using assms by (rule process_station_short)
  fix d sts
  assume h: "map_of d ''data'' = Some (PList sts) \<and> PDict kvs \<in> set sts"
  from one obtain e where "process_station lib ts (PDict kvs) = Inl e"
    by (auto split: if_splits)
  with h obtain lg' e' where "stations_loop lib ts sts [] [] = (lg', Inl e')"
    using stations_loop_some_bad by blast
  with h show "\<exists>lg e. process_stations_data lib ts (PDict d) = (lg, Inl e)"
    by (simp add: process_stations_data_list)
qed

theorem short_coordinates_raise_witness:
  "process_station lib0 ts0 station_short = Inl IndexError \<and>
   (\<exists>lg e. process_stations_data lib0 ts0 (PDict [(''data'', PList [station_a, station_short])])
             = (lg, Inl e))"
proof -
  let ?kvs = "[(''id'', PInt 4), (''name'', PStr [83, 111, 108]),
     (''geometry'', PDict [(''coordinates'', PList [PFloat (Finite (- 37 / 10))])])]"
  have g: "map_of ?kvs ''geometry'' = Some (PDict [(''coordinates'', PList [PFloat (Finite (- 37 / 10))])])"
    by simp
  have c: "map_of [(''coordinates'', PList [PFloat (Finite (- 37 / 10))])] ''coordinates''
             = Some (PList [PFloat (Finite (- 37 / 10))])"
    by simp
  have l: "length [PFloat (Finite (- 37 / 10))] < 2"
    by simp
  have texts: "is_text (dict_get ?kvs ''name'' (PStr [])) \<and>
             is_text (dict_get ?kvs ''address'' (PStr []))"
    by (simp add: dict_get_def)
  have d: "map_of [(''data'', PList [station_a, station_short])] ''data''
             = Some (PList [station_a, station_short]) \<and>
           PDict ?kvs \<in> set [station_a, station_short]"
    by (simp add: station_short_def)
  from short_coordinates_raise [OF g c l, of lib0 ts0] texts d show ?thesis
    unfolding station_short_def by meson
qed

section \<open>Properties of a collection and of the schedulers\<close>

lemmas collect_defs = collect_data_def collect_body_def get_station_info_def
  save_json_data_def update_csv_def add_stats_def new_stats_def Let_def log_add_def

lemma collect_data_counters:
  "fst (collect_data env c w) = add_stats c (cycle_delta env)"
proof (cases "fetch env")
  case (Inl e)
  then show ?thesis
    by (cases "e = RequestException") (simp_all add: cycle_delta_def collect_defs)
next
  case (Inr data)
  show ?thesis
  proof (cases "py_truthy data")
    case False
    with Inr show ?thesis by (simp add: cycle_delta_def collect_defs)
  next
    case True
    then have nn: "data \<noteq> PNone" by auto
    show ?thesis
    proof (cases "write_error env (SnapshotJson (json_date env) (json_time env))")
      case (Some e)
      with Inr True nn show ?thesis by (simp add: cycle_delta_def collect_defs)
    next
      case None
      obtain lg r where p: "process_stations_data (library env) (process_time env) data = (lg, r)"
        by (cases "process_stations_data (library env) (process_time env) data")
      show ?thesis
      proof (cases r)
        case (Inl e)
        with Inr True nn None p show ?thesis by (simp add: cycle_delta_def collect_defs)
      next
        case df: (Inr df)
        show ?thesis
        proof (cases "df = None \<or> df = Some []")
          case True
          with Inr \<open>py_truthy data\<close> nn None p df show ?thesis
            by (auto simp: cycle_delta_def collect_defs)
        next
          case False
          then obtain rows where rows: "df = Some rows" "rows \<noteq> []" by (cases df) auto
          show ?thesis
          proof (cases "write_error env MainCsv")
            case (Some e)
            with Inr True nn None p df rows show ?thesis
              by (simp add: cycle_delta_def collect_defs)
          next
            case m: None
            show ?thesis
            proof (cases "write_error env (DailyCsv (csv_date env) (csv_time env))")
              case (Some e)
              with Inr True nn None p df rows m show ?thesis
                by (simp add: cycle_delta_def collect_defs split: option.splits)
            next
              case d: None
              with Inr True nn \<open>write_error env (SnapshotJson (json_date env) (json_time env)) = None\<close> p df rows m show ?thesis
                by (simp add: cycle_delta_def collect_defs split: option.splits)
            qed
          qed
        qed
      qed
    qed
  qed
qed


lemma run_cycles_counters:
  "fst (run_cycles envs c w) = foldl add_stats c (map cycle_delta envs)"
proof (induction envs arbitrary: c w)
  case Nil
  show ?case by simp
next
  case (Cons env envs)
  obtain c' w' where cd: "collect_data env c w = (c', w')"
    by (cases "collect_data env c w")
  then have "c' = add_stats c (cycle_delta env)"
    using collect_data_counters [of env c w] by simp
  with cd Cons.IH [of c' w'] show ?case by simp
qed

lemma main_interval_counters:
  "fst (main_interval None now (Inr minutes) first later w)
     = Some (foldl add_stats (new_stats now) (map cycle_delta (first # later)))"
proof -
  obtain c1 w1 where cd: "collect_data first (new_stats now) w = (c1, w1)"
    by (cases "collect_data first (new_stats now) w")
  then have c1: "c1 = add_stats (new_stats now) (cycle_delta first)"
    using collect_data_counters [of first "new_stats now" w] by simp
  let ?w = "log_add INFO MsgStarted (log_add INFO (MsgScheduled minutes) w1)"
  obtain c2 w2 where rc: "run_cycles later c1 ?w = (c2, w2)"
    by (cases "run_cycles later c1 ?w")
  then have "c2 = foldl add_stats c1 (map cycle_delta later)"
    using run_cycles_counters [of later c1 ?w] by simp
  with cd c1 rc show ?thesis
    by (simp add: main_interval_def)
qed

lemma run_once_fresh:
  "run_once tk w = (Some c, w') \<Longrightarrow>
     c = add_stats (new_stats (init_now tk)) (cycle_delta (cycle tk))"
  using collect_data_counters [of "cycle tk" "new_stats (init_now tk)" w]
  by (auto simp: run_once_def split: option.splits prod.splits)

lemma window_loop_results:
  assumes "window_loop e i ticks nr clock w runs = Some (runs', w')"
      and "\<forall>r\<in>set runs. P r"
      and "set ticks \<subseteq> T"
      and step: "\<And>tk w0 res w1 s b f. tk \<in> T \<Longrightarrow> run_once tk w0 = (res, w1) \<Longrightarrow>
                   s \<le> e \<Longrightarrow>
                   P \<lparr>scheduled = s, started = b, finished = f, result = res\<rparr>"
  shows "\<forall>r\<in>set runs'. P r"
  using assms(1,2,3)
proof (induction ticks arbitrary: nr clock w runs)
  case Nil
  then show ?case by (auto split: if_splits)
next
  case (Cons tk ticks)
  show ?case
  proof (cases "nr \<le> e")
    case False
    with Cons.prems show ?thesis by simp
  next
    case True
    obtain res w1 where ro: "run_once tk (log_add INFO MsgRunBegin w) = (res, w1)"
      by (cases "run_once tk (log_add INFO MsgRunBegin w)")
    let ?r = "\<lparr>scheduled = nr, started = clock, finished = clock + duration tk,
               result = res\<rparr>"
    have "tk \<in> T" using Cons.prems(3) by simp
    then have "P ?r"
      using step ro True by blast
    with Cons.prems(2) have all: "\<forall>r\<in>set (runs @ [?r]). P r" by simp
    have sub: "set ticks \<subseteq> T" using Cons.prems(3) by simp
    note IH = Cons.IH [OF _ all sub]
    from Cons.prems(1) True ro all show ?thesis
      by (auto simp: Let_def split: if_splits dest: IH)
  qed
qed


lemma cycle_delta_ok:
  "cycle_delta env_ok = \<lparr>start_time = [], collections_made = 1, total_files = 1, errors = 0\<rparr>"
  by (simp add: cycle_delta_def env_ok_def collect_defs payload_a_def no_files_def
      process_stations_data_def process_station_a data_frame_lib0)

lemma run_once_ok:
  "run_once tick_ok w =
     (Some \<lparr>start_time = ts0, collections_made = 1, total_files = 1, errors = 0\<rparr>,
      log_add INFO MsgRunDone (snd (collect_data env_ok (new_stats ts0) w)))"
  using collect_data_counters [of env_ok "new_stats ts0" w]
  by (simp add: run_once_def tick_ok_def case_prod_unfold cycle_delta_ok add_stats_def
      new_stats_def)

lemma run_once_1s: "run_once tick_1s w = run_once tick_ok w"
  by (simp add: run_once_def tick_1s_def tick_ok_def)

lemma windowed_two:
  "\<exists>w'. main_windowed 0 7200000000 120 (- 5) 0 [tick_ok, tick_ok] no_files =
     Some ([\<lparr>scheduled = 0, started = 0, finished = 0,
              result = Some \<lparr>start_time = ts0, collections_made = 1, total_files = 1, errors = 0\<rparr>\<rparr>,
            \<lparr>scheduled = 7200000000, started = 7200000000, finished = 7200000000,
              result = Some \<lparr>start_time = ts0, collections_made = 1, total_files = 1, errors = 0\<rparr>\<rparr>],
           w')"
  by (simp add: main_windowed_def run_once_ok Let_def) (simp add: tick_ok_def)






lemma main_windowed_loop:
  "main_windowed t_start t_end minutes now late ticks w =
     window_loop t_end (minutes * 60 * 1000000) ticks
       ((if now < t_start then t_start else now) + late)
       ((if now < t_start then t_start else now) + late)
       (if now < t_start
        then log_add INFO (MsgWaitStart (t_start - now))
               (log_add INFO (MsgProgram t_start t_end minutes) w)
        else log_add INFO (MsgProgram t_start t_end minutes) w) []"
  by (simp add: main_windowed_def Let_def)




text \<open>Why the clock must not be set back: with an interval of 50 minutes and the clock set
  back by one hour while the program waits for the start, five collections of one second
  fit before the end at \<open>T0 + 3 \<times> interval\<close>.\<close>

lemma windowed_clock_set_back:
  "map_option (length \<circ> fst)
     (main_windowed 0 (0 + 3 * (50 * 60 * 1000000)) 50 (- 5) (- 3600000000)
        [tick_1s, tick_1s, tick_1s, tick_1s, tick_1s] no_files)
   = Some 5"
  by (simp add: main_windowed_def run_once_1s run_once_ok Let_def)
    (simp add: tick_1s_def tick_ok_def)


text \<open>
  C2. A failed request (\<open>RequestException\<close>) leaves every file as it was, writes no
  snapshot, attempts no extraction, changes no other counter and lets \<open>collect_data\<close>
  return; but the \<open>errors\<close> counter grows by 2, once in \<open>get_station_info\<close> and once more in
  \<open>collect_data\<close>.
\<close>

theorem fetch_failure_counted_twice:
  "collect_data (env\<lparr>fetch := Inl RequestException\<rparr>) c w =
     (c\<lparr>errors := errors c + 2\<rparr>,
      w\<lparr>log := log w @ [(INFO, MsgStart), (ERROR, MsgFetchError RequestException),
                         (ERROR, MsgNoData)]\<rparr>)"
  by (simp add: collect_data_def collect_body_def get_station_info_def log_add_def)

text \<open>
  C3. When the request succeeds and writing the snapshot raises, the exception leaves
  \<open>save_json_data\<close> and the body of \<open>collect_data\<close>: it is logged and counted as one
  error, no extraction takes place and no file changes, the history included.
\<close>

theorem snapshot_failure_aborts_collection:
  "collect_data
     (env\<lparr>fetch := Inr payload_a,
          write_error := (write_error env)
             (SnapshotJson (json_date env) (json_time env) := Some OSError)\<rparr>) c w =
     (c\<lparr>errors := errors c + 1\<rparr>,
      w\<lparr>log := log w @ [(INFO, MsgStart), (ERROR, MsgCycleError OSError)]\<rparr>)"
  by (simp add: collect_data_def collect_body_def get_station_info_def save_json_data_def
      log_add_def payload_a_def)

text \<open>
  C8. When the cumulative file can be written and the table is not empty: if the file
  does not exist it is created as one header line followed by the rows; otherwise the
  rows are added, without a header, after the lines the file holds, which stay as they
  were and in their order. For an empty table (or none) \<open>update_csv\<close> only logs a warning:
  no file changes and none is created.
\<close>

theorem update_csv_appends:
  "(write_error env MainCsv = None \<and> rows \<noteq> [] \<and>
    update_csv env (Some rows) c w = (r, c', w') \<longrightarrow>
      files w' MainCsv =
        Some (case files w MainCsv of
                None \<Rightarrow> Header columns # map Row rows
              | Some old \<Rightarrow> old @ map Row rows)) \<and>
   (df = None \<or> df = Some [] \<longrightarrow>
      update_csv env df c w = (Inr (), c, w\<lparr>log := log w @ [(WARNING, MsgNoCsvData)]\<rparr>) \<and>
      files (snd (snd (update_csv env df c w))) = files w)"
  by (auto simp: update_csv_def log_add_def Let_def split: option.splits)

theorem update_csv_appends_witness:
  "write_error env_ok MainCsv = None \<and> [row_a] \<noteq> [] \<and>
   files (snd (snd (update_csv env_ok (Some [row_a]) (new_stats ts0) no_files))) MainCsv
     = Some [Header columns, Row row_a] \<and>
   files (snd (snd (update_csv env_ok (Some [row_a]) (new_stats ts0)
       (no_files\<lparr>files := (files no_files)(MainCsv \<mapsto> [Header columns, Row row_low])\<rparr>)))) MainCsv
     = Some [Header columns, Row row_low, Row row_a] \<and>
   files (snd (snd (update_csv env_ok (Some []) (new_stats ts0) no_files))) = files no_files"
proof -
  let ?w = "no_files\<lparr>files := (files no_files)(MainCsv \<mapsto> [Header columns, Row row_low])\<rparr>"
  let ?u1 = "update_csv env_ok (Some [row_a]) (new_stats ts0) no_files"
  let ?u2 = "update_csv env_ok (Some [row_a]) (new_stats ts0) ?w"
  have e: "write_error env_ok MainCsv = None" by (simp add: env_ok_def)
  have n: "[row_a] \<noteq> []" by simp
  have p1: "?u1 = (fst ?u1, fst (snd ?u1), snd (snd ?u1))" by simp
  have p2: "?u2 = (fst ?u2, fst (snd ?u2), snd (snd ?u2))" by simp
  have f1: "files no_files MainCsv = None" by (simp add: no_files_def)
  have f2: "files ?w MainCsv = Some [Header columns, Row row_low]" by simp
  from update_csv_appends [of env_ok "[row_a]" "new_stats ts0" no_files "fst ?u1"
      "fst (snd ?u1)" "snd (snd ?u1)"] e n p1 f1
  have a: "files (snd (snd ?u1)) MainCsv = Some [Header columns, Row row_a]"
    by simp
  from update_csv_appends [of env_ok "[row_a]" "new_stats ts0" ?w "fst ?u2"
      "fst (snd ?u2)" "snd (snd ?u2)"] e n p2 f2
  have b: "files (snd (snd ?u2)) MainCsv = Some [Header columns, Row row_low, Row row_a]"
    by simp
  from update_csv_appends [of env_ok "[row_a]" "new_stats ts0" no_files "fst ?u1"
      "fst (snd ?u1)" "snd (snd ?u1)" "Some []"]
  have c: "files (snd (snd (update_csv env_ok (Some []) (new_stats ts0) no_files)))
             = files no_files"
    by simp
  from e n a b c show ?thesis by blast
qed

text \<open>
  C4, as stated: in either scheduler mode the counters of one process add up over its
  collections. In windowed mode they do not: after two successful collections the
  collector of the second run shows one collection made and one file saved, where the
  single collector of interval mode shows two.
\<close>

theorem counters_accumulate_counterexample:
  "(\<exists>w'. main_windowed 0 7200000000 120 (- 5) 0 [tick_ok, tick_ok] no_files =
     Some ([\<lparr>scheduled = 0, started = 0, finished = 0,
              result = Some \<lparr>start_time = ts0, collections_made = 1, total_files = 1,
                              errors = 0\<rparr>\<rparr>,
            \<lparr>scheduled = 7200000000, started = 7200000000, finished = 7200000000,
              result = Some \<lparr>start_time = ts0, collections_made = 1, total_files = 1,
                              errors = 0\<rparr>\<rparr>],
           w')) \<and>
   fst (main_interval None ts0 (Inr 120) env_ok [env_ok] no_files)
     = Some \<lparr>start_time = ts0, collections_made = 2, total_files = 2, errors = 0\<rparr>"
  using windowed_two
  by (simp add: main_interval_counters cycle_delta_ok add_stats_def new_stats_def)

text \<open>
  C4, amended. The counters belong to a collector object. What a collection adds to them
  does not depend on their values. In interval mode one collector serves the whole
  process: its counters are those of a new collector plus what each collection added, and
  nothing resets them. In windowed mode every run creates a new collector: the counters a
  run leaves are those of a new collector plus what that one collection added.
\<close>

theorem counters_per_collector:
  "fst (collect_data env c w) = add_stats c (cycle_delta env) \<and>
   fst (main_interval None now (Inr minutes) first later w)
     = Some (foldl add_stats (new_stats now) (map cycle_delta (first # later))) \<and>
   (main_windowed t_start t_end minutes' now' late ticks w = Some (runs, w') \<longrightarrow>
      (\<forall>r\<in>set runs. \<forall>c'. result r = Some c' \<longrightarrow>
         (\<exists>tk\<in>set ticks. c' = add_stats (new_stats (init_now tk)) (cycle_delta (cycle tk)))))"
proof (intro conjI impI)
  show "fst (collect_data env c w) = add_stats c (cycle_delta env)"
    by (rule collect_data_counters)
  show "fst (main_interval None now (Inr minutes) first later w)
     = Some (foldl add_stats (new_stats now) (map cycle_delta (first # later)))"
    by (rule main_interval_counters)
next
  assume "main_windowed t_start t_end minutes' now' late ticks w = Some (runs, w')"
  then show "\<forall>r\<in>set runs. \<forall>c'. result r = Some c' \<longrightarrow>
         (\<exists>tk\<in>set ticks. c' = add_stats (new_stats (init_now tk)) (cycle_delta (cycle tk)))"
    unfolding main_windowed_loop
  proof (rule window_loop_results)
    show "set ticks \<subseteq> set ticks" by simp
  qed (auto dest: run_once_fresh)
qed

theorem counters_per_collector_witness:
  "\<exists>runs w'. main_windowed 0 7200000000 120 (- 5) 0 [tick_ok, tick_ok] no_files = Some (runs, w') \<and>
     length runs = 2 \<and>
     list_all (\<lambda>r. result r = Some (add_stats (new_stats ts0) (cycle_delta env_ok))) runs \<and>
     collections_made (add_stats (new_stats ts0) (cycle_delta env_ok)) = 1 \<and>
     fst (main_interval None ts0 (Inr 120) env_ok [env_ok] no_files)
       = Some (foldl add_stats (new_stats ts0) [cycle_delta env_ok, cycle_delta env_ok])"
proof -
  from windowed_two obtain runs w' where
    m: "main_windowed 0 7200000000 120 (- 5) 0 [tick_ok, tick_ok] no_files = Some (runs, w')"
    and l: "length runs = 2" and s: "\<forall>r\<in>set runs. result r \<noteq> None"
    by auto
  from counters_per_collector [of env_ok "new_stats ts0" no_files ts0 120 env_ok "[env_ok]"
      0 7200000000 120 "- 5" 0 "[tick_ok, tick_ok]" runs w'] m
  have i: "fst (main_interval None ts0 (Inr 120) env_ok [env_ok] no_files)
       = Some (foldl add_stats (new_stats ts0) [cycle_delta env_ok, cycle_delta env_ok])"
    and f: "\<forall>r\<in>set runs. \<forall>c'. result r = Some c' \<longrightarrow>
         (\<exists>tk\<in>set [tick_ok, tick_ok].
            c' = add_stats (new_stats (init_now tk)) (cycle_delta (cycle tk)))"
    by simp_all
  have "result r = Some (add_stats (new_stats ts0) (cycle_delta env_ok))" if "r \<in> set runs" for r
  proof -
    from s that obtain c' where c': "result r = Some c'" by auto
    with f that have "c' = add_stats (new_stats (init_now tick_ok)) (cycle_delta (cycle tick_ok))"
      by auto
    with c' show ?thesis by (simp add: tick_ok_def)
  qed
  then have a: "list_all (\<lambda>r. result r = Some (add_stats (new_stats ts0) (cycle_delta env_ok))) runs"
    by (simp add: list_all_iff)
  have o: "collections_made (add_stats (new_stats ts0) (cycle_delta env_ok)) = 1"
    by (simp add: cycle_delta_ok add_stats_def new_stats_def)
  from m l a o i show ?thesis by blast
qed

end
